theory Spec2Isabelle
  imports Main "HOL-Library.AList"
begin

section \<open>JavaScript values and objects\<close>

text \<open>
  Field values, validator results and thrown values are JavaScript values of any type.
  \<open>JObj r\<close> is a reference to an object that is not an \<open>Error\<close>, identified by
  \<open>r\<close> and printed as a plain object prints; \<open>JError m\<close> is an \<open>Error\<close> object
  with message \<open>m\<close>. Numbers are integers here (no \<open>NaN\<close>, no fractions), an
  \<open>Error\<close> object is identified by its message, and functions are not among the
  values.
\<close>

datatype jsval =
    JUndefined
  | JNull
  | JBool bool
  | JNum int
  | JStr string
  | JObj nat
  | JError string

text \<open>The truthiness that \<open>!x\<close> and \<open>x ? a : b\<close> test.\<close>

fun truthy :: "jsval \<Rightarrow> bool" where
  "truthy JUndefined = False"
| "truthy JNull = False"
| "truthy (JBool b) = b"
| "truthy (JNum n) = (n \<noteq> 0)"
| "truthy (JStr s) = (s \<noteq> [])"
| "truthy (JObj r) = True"
| "truthy (JError m) = True"

fun instanceofError :: "jsval \<Rightarrow> bool" where
  "instanceofError (JError m) = True"
| "instanceofError v = False"

text \<open>Decimal digits of a natural number, for the string form of a number.\<close>

fun digits :: "nat \<Rightarrow> string" where
  "digits n =
     (if n < 10 then [char_of (48 + n)]
      else digits (n div 10) @ [char_of (48 + n mod 10)])"

text \<open>
  The message \<open>new Error(v)\<close> carries: empty for \<open>undefined\<close>, and the string form
  of \<open>v\<close> otherwise (a plain object prints as \<open>[object Object]\<close>).
\<close>

fun message_of :: "jsval \<Rightarrow> string" where
  "message_of JUndefined = []"
| "message_of JNull = ''null''"
| "message_of (JBool b) = (if b then ''true'' else ''false'')"
| "message_of (JNum n) = (if n < 0 then CHR ''-'' # digits (nat (- n)) else digits (nat n))"
| "message_of (JStr s) = s"
| "message_of (JObj r) = ''[object Object]''"
| "message_of (JError m) = (if m = [] then ''Error'' else ''Error: '' @ m)"

definition new_Error :: "jsval \<Rightarrow> jsval" where
  "new_Error v = JError (message_of v)"

text \<open>
  A plain object is an association list from property names to values, in the order of
  insertion: \<open>o[k] = v\<close> is \<open>AList.update\<close> (an existing key keeps its place, a new
  one goes last) and \<open>delete o[k]\<close> is \<open>AList.delete\<close>. Property names that look
  like array indices, which JavaScript lists first, are not treated apart.
\<close>

type_synonym 'a obj = "(string \<times> 'a) list"

definition keys :: "'a obj \<Rightarrow> string list" where
  "keys ob = map fst ob"

definition has :: "string \<Rightarrow> 'a obj \<Rightarrow> bool" where
  "has k ob = (k \<in> set (keys ob))"

text \<open>Reading a property that is absent gives \<open>undefined\<close>.\<close>

definition get :: "jsval obj \<Rightarrow> string \<Rightarrow> jsval" where
  "get ob k = (case map_of ob k of None \<Rightarrow> JUndefined | Some v \<Rightarrow> v)"

text \<open>\<open>!flags[k]\<close> on an object of booleans: an absent key reads as falsy.\<close>

definition flag :: "bool obj \<Rightarrow> string \<Rightarrow> bool" where
  "flag ob k = (case map_of ob k of None \<Rightarrow> False | Some b \<Rightarrow> b)"

text \<open>The spread \<open>{...a, ...b}\<close>.\<close>

definition assign :: "'a obj \<Rightarrow> 'a obj \<Rightarrow> 'a obj" where
  "assign a b = fold (\<lambda>(k, v). AList.update k v) b a"

section \<open>The form state\<close>

record FormState =
  "values" :: "jsval obj"
  valid :: bool
  invalid :: bool
  loading :: bool
  submitted :: bool
  dirty :: bool
  pristine :: bool
  dirtyFields :: "bool obj"
  errors :: "jsval obj"

record ValidateSettings =
  makeSubmitted :: "bool option"
  makePristine :: "bool option"


record SetValueSettings =
  keepPristine :: "bool option"

text \<open>A destructuring default: the default stands in for a missing setting.\<close>

definition dflt :: "bool \<Rightarrow> bool option \<Rightarrow> bool" where
  "dflt d x = (case x of None \<Rightarrow> d | Some b \<Rightarrow> b)"

text \<open>The state \<open>asForm\<close> creates with \<open>useState\<close>.\<close>

definition initialState :: FormState where
  "initialState =
     \<lparr> values = [], valid = True, invalid = False, loading = False, submitted = True,
       dirty = False, pristine = True, dirtyFields = [], errors = [] \<rparr>"

text \<open>
  Every operation below is the function handed to \<open>setState\<close>: it maps the previous
  state of the store to the next one.
\<close>

definition makeFormPristine :: "FormState \<Rightarrow> FormState" where
  "makeFormPristine previousState =
     previousState\<lparr> submitted := True, dirty := False, pristine := True, dirtyFields := [] \<rparr>"

definition reset :: "FormState \<Rightarrow> FormState" where
  "reset previousState =
     \<lparr> values = [], valid = True, invalid = False, loading = False, submitted = True,
       dirty = False, pristine = True, dirtyFields = [], errors = [] \<rparr>"

definition makeFormSubmitted :: "FormState \<Rightarrow> FormState" where
  "makeFormSubmitted previousState = previousState\<lparr> submitted := True \<rparr>"

definition setValues :: "jsval obj \<Rightarrow> SetValueSettings \<Rightarrow> FormState \<Rightarrow> FormState" where
  "setValues fields' settings previousState =
     (if keys fields' = [] then previousState
      else
        let newState = previousState\<lparr> values := assign (values previousState) fields' \<rparr>
        in if \<not> dflt False (keepPristine settings)
           then newState\<lparr> submitted := False, dirty := True, pristine := False,
                  dirtyFields :=
                    fold (\<lambda>key df. AList.update key True df) (keys fields')
                      (dirtyFields previousState) \<rparr>
           else newState)"

definition setValue :: "string \<Rightarrow> jsval \<Rightarrow> SetValueSettings \<Rightarrow> FormState \<Rightarrow> FormState" where
  "setValue field v settings previousState =
     (let newState = previousState\<lparr> values := AList.update field v (values previousState) \<rparr>
      in if \<not> dflt False (keepPristine settings)
         then newState\<lparr> submitted := False, dirty := True, pristine := False,
                dirtyFields := AList.update field True (dirtyFields previousState) \<rparr>
         else newState)"

section \<open>The validation coordinator\<close>

text \<open>
  A promise is fulfilled with a value, rejected with a thrown value, or never settles.
  Calling a validator returns a value, throws, or returns a promise.
\<close>

datatype 'a promise = Fulfilled 'a | Rejected jsval | Pending

datatype outcome = Returns jsval | Throws jsval | ReturnsPromise "jsval promise"

type_synonym FormFieldValidator = "jsval \<Rightarrow> jsval obj \<Rightarrow> outcome"

text \<open>\<open>null\<close> in the registry is \<open>None\<close>.\<close>

type_synonym FormFieldValidators = "FormFieldValidator option obj"

text \<open>\<open>await f(x)\<close> inside an async function.\<close>

fun await :: "outcome \<Rightarrow> jsval promise" where
  "await (Returns v) = Fulfilled v"
| "await (Throws e) = Rejected e"
| "await (ReturnsPromise p) = p"

text \<open>
  \<open>validatorsRef.current.validateField\<close>. The function is declared with the parameters
  \<open>(field, values)\<close> and written with \<open>(field)\<close> alone: the validator reads
  \<open>state.values\<close> of the closure (\<open>state_values\<close>), whatever \<open>vals\<close> the caller
  passes.
\<close>

definition validateField ::
  "FormFieldValidators \<Rightarrow> jsval obj \<Rightarrow> string \<Rightarrow> jsval obj \<Rightarrow> jsval promise" where
  "validateField fieldValidators state_values field vals =
     (case map_of fieldValidators field of
        None \<Rightarrow> Fulfilled JNull
      | Some None \<Rightarrow> Fulfilled JNull
      | Some (Some fieldValidator) \<Rightarrow>
          (case await (fieldValidator (get state_values field) state_values) of
             Fulfilled error \<Rightarrow>
               if \<not> truthy error then Fulfilled JNull
               else Fulfilled (if instanceofError error then error else new_Error error)
           | Rejected e \<Rightarrow> Rejected e
           | Pending \<Rightarrow> Pending))"

text \<open>One branch of the fan-out in \<open>validate\<close>: the async arrow function mapped over the keys.\<close>

definition fieldValidation ::
  "FormFieldValidators \<Rightarrow> jsval obj \<Rightarrow> jsval obj \<Rightarrow> string \<Rightarrow> (string \<times> jsval) option promise" where
  "fieldValidation fieldValidators state_values immutableValues key =
     (case validateField fieldValidators state_values key immutableValues of
        Fulfilled error \<Rightarrow> Fulfilled (if truthy error then Some (key, error) else None)
      | Rejected error \<Rightarrow>
          Fulfilled (Some (key, if instanceofError error then error else new_Error error))
      | Pending \<Rightarrow> Pending)"

text \<open>
  \<open>Promise.all\<close>: the results in the order of the input once every promise is
  fulfilled; rejected when one is rejected; pending otherwise.
\<close>

fun promise_all :: "'a promise list \<Rightarrow> 'a list promise" where
  "promise_all [] = Fulfilled []"
| "promise_all (p # ps) =
     (case p of
        Rejected e \<Rightarrow> Rejected e
      | Fulfilled x \<Rightarrow>
          (case promise_all ps of
             Fulfilled xs \<Rightarrow> Fulfilled (x # xs)
           | Rejected e \<Rightarrow> Rejected e
           | Pending \<Rightarrow> Pending)
      | Pending \<Rightarrow>
          (case promise_all ps of Rejected e \<Rightarrow> Rejected e | _ \<Rightarrow> Pending))"

text \<open>The \<open>results.forEach\<close> loop: \<open>hasErrors\<close> and the \<open>errors\<close> object.\<close>

definition collect_errors :: "(string \<times> jsval) option list \<Rightarrow> bool \<times> jsval obj" where
  "collect_errors results =
     fold (\<lambda>result (hasErrors, errs).
             case result of
               None \<Rightarrow> (hasErrors, errs)
             | Some (key, error) \<Rightarrow> (True, AList.update key error errs))
       results (False, [])"

text \<open>The first \<open>setState\<close> of \<open>validate\<close>.\<close>

definition validate_begin :: "FormState \<Rightarrow> FormState" where
  "validate_begin prevState =
     prevState\<lparr> valid := True, invalid := False, loading := True, errors := [] \<rparr>"

text \<open>
  The fan-out and the fan-in of \<open>validate\<close>: one \<open>validateField\<close> per key of
  \<open>state.values\<close>, joined by \<open>Promise.all\<close>.
\<close>

definition validate_results ::
  "FormFieldValidators \<Rightarrow> FormState \<Rightarrow> (string \<times> jsval) option list promise" where
  "validate_results fieldValidators state =
     (let immutableValues = values state
      in promise_all
           (map (fieldValidation fieldValidators (values state) immutableValues)
              (keys (values state))))"

text \<open>
  The \<open>setState\<close> of \<open>validate\<close> once the results are in. The value \<open>validate\<close>
  returns is built by the same steps from the closure's \<open>state\<close>.
\<close>

definition validate_commit ::
  "ValidateSettings \<Rightarrow> (string \<times> jsval) option list \<Rightarrow> FormState \<Rightarrow> FormState" where
  "validate_commit settings results prevState =
     (case collect_errors results of
        (hasErrors, errs) \<Rightarrow>
          if hasErrors
          then prevState\<lparr> valid := False, invalid := True, loading := False, errors := errs \<rparr>
          else
            let nextState =
                  prevState\<lparr> valid := True, invalid := False, loading := False, errors := [] \<rparr>
            in if dflt False (makePristine settings)
               then nextState\<lparr> pristine := True, dirty := False, dirtyFields := [],
                      submitted := True \<rparr>
               else if dflt False (makeSubmitted settings)
               then nextState\<lparr> submitted := True \<rparr>
               else nextState)"

text \<open>
  \<open>validatorsRef.current.validate\<close>, run with nothing else touching the store in
  between: the store afterwards and the promise of the returned state. \<open>state\<close> is the
  state in the closure, \<open>store\<close> the state the updates are applied to.
\<close>

definition validate ::
  "FormFieldValidators \<Rightarrow> FormState \<Rightarrow> ValidateSettings \<Rightarrow> FormState
     \<Rightarrow> FormState \<times> FormState promise" where
  "validate fieldValidators state settings store =
     (let store1 = validate_begin store
      in case validate_results fieldValidators state of
           Fulfilled results \<Rightarrow>
             (validate_commit settings results store1,
              Fulfilled (validate_commit settings results state))
         | Rejected e \<Rightarrow> (store1, Rejected e)
         | Pending \<Rightarrow> (store1, Pending))"

text \<open>The \<open>validate\<close> callback of \<open>asForm\<close>, which fills in both settings.\<close>

definition validateAll ::
  "FormFieldValidators \<Rightarrow> FormState \<Rightarrow> ValidateSettings \<Rightarrow> FormState
     \<Rightarrow> FormState \<times> FormState promise" where
  "validateAll fieldValidators state settings =
     validate fieldValidators state
       \<lparr> makeSubmitted = Some (dflt False (makeSubmitted settings)),
         makePristine = Some (dflt False (makePristine settings)) \<rparr>"

section \<open>Fields\<close>

fun typeof :: "jsval \<Rightarrow> string" where
  "typeof JUndefined = ''undefined''"
| "typeof JNull = ''object''"
| "typeof (JBool b) = ''boolean''"
| "typeof (JNum n) = ''number''"
| "typeof (JStr s) = ''string''"
| "typeof (JObj r) = ''object''"
| "typeof (JError m) = ''object''"

definition valueCanUpdateSafely :: "jsval \<Rightarrow> bool" where
  "valueCanUpdateSafely val = (typeof val \<noteq> ''object'' \<or> val = JNull)"

text \<open>
  The effect of \<open>useField\<close> that seeds the value. \<open>state\<close> is the state of the render
  the effect belongs to; the update goes to \<open>store\<close>.
\<close>

definition useField_seed ::
  "string \<Rightarrow> jsval \<Rightarrow> bool \<Rightarrow> FormState \<Rightarrow> FormState \<Rightarrow> FormState" where
  "useField_seed field initialValue forceInitialValue state store =
     (let pristine' = \<not> flag (dirtyFields state) field
      in if \<not> has field (values state) \<or>
            (pristine' \<and> get (values state) field \<noteq> initialValue \<and>
             (forceInitialValue \<or>
              (valueCanUpdateSafely (get (values state) field) \<and>
               valueCanUpdateSafely initialValue)))
         then setValue field initialValue \<lparr> keepPristine = Some True \<rparr> store
         else store)"

text \<open>
  The cleanup the last effect of \<open>useField\<close> returns, run when the field unmounts.
  \<open>state\<close> is the state of the render in which the effect ran.
\<close>

definition useField_cleanup :: "string \<Rightarrow> FormState \<Rightarrow> FormState \<Rightarrow> FormState" where
  "useField_cleanup field state previousState =
     (if has field (values state) then previousState
      else
        let newValues = AList.delete field (values previousState);
            newErrors = AList.delete field (errors previousState);
            newDirtyFields = AList.delete field (dirtyFields previousState);
            newPristine = (keys newDirtyFields = [])
        in previousState\<lparr> pristine := newPristine, dirty := \<not> newPristine,
             dirtyFields := newDirtyFields, values := newValues, errors := newErrors \<rparr>)"

text \<open>The validator effect of \<open>useField\<close> and its cleanup.\<close>

definition register_validator ::
  "string \<Rightarrow> FormFieldValidator option \<Rightarrow> FormFieldValidators \<Rightarrow> FormFieldValidators" where
  "register_validator field validator fieldValidators =
     AList.update field validator fieldValidators"

definition deregister_validator :: "string \<Rightarrow> FormFieldValidators \<Rightarrow> FormFieldValidators" where
  "deregister_validator field fieldValidators = AList.delete field fieldValidators"

text \<open>
  The \<open>setState\<close> of the field's own \<open>validate\<close>, given what \<open>validateField\<close>
  settled to: the \<open>try\<close> branch when it is fulfilled, the \<open>catch\<close> branch when it is
  rejected.
\<close>

definition useField_validate_commit :: "string \<Rightarrow> jsval promise \<Rightarrow> FormState \<Rightarrow> FormState" where
  "useField_validate_commit field p previousState =
     (case p of
        Fulfilled error \<Rightarrow>
          if truthy error
          then previousState\<lparr> errors := AList.update field error (errors previousState),
                 valid := False, invalid := True \<rparr>
          else
            let newErrors = AList.delete field (errors previousState);
                valid' = (keys newErrors = [])
            in previousState\<lparr> errors := newErrors, valid := valid', invalid := \<not> valid' \<rparr>
      | Rejected error \<Rightarrow>
          previousState\<lparr> errors := AList.update field error (errors previousState),
            valid := False, invalid := True \<rparr>
      | Pending \<Rightarrow> previousState)"

text \<open>The field's own \<open>validate\<close>, run with nothing else touching the store in between.\<close>

definition useField_validate ::
  "FormFieldValidators \<Rightarrow> jsval obj \<Rightarrow> string \<Rightarrow> jsval obj \<Rightarrow> FormState \<Rightarrow> FormState" where
  "useField_validate fieldValidators state_values field immutableValues store =
     useField_validate_commit field
       (validateField fieldValidators state_values field immutableValues) store"

text \<open>The field's own \<open>makePristine\<close>.\<close>

definition useField_makePristine :: "string \<Rightarrow> FormState \<Rightarrow> FormState" where
  "useField_makePristine field previousState =
     (let newDirtyFields = AList.delete field (dirtyFields previousState);
          newPristine = (keys newDirtyFields = [])
      in previousState\<lparr> pristine := newPristine, dirty := \<not> newPristine,
           dirtyFields := newDirtyFields \<rparr>)"

section \<open>The form context and the form API\<close>

text \<open>
  The nine entries of \<open>formContextValue\<close>, in the order \<open>asForm\<close> puts them in the
  array: the state, the validators, \<open>setState\<close>, \<open>validate\<close>, \<open>setValue\<close>,
  \<open>setValues\<close>, \<open>makeFormPristine\<close>, \<open>makeFormSubmitted\<close>, \<open>reset\<close>.
\<close>

type_synonym FormContextValue =
  "FormState \<times> FormFieldValidators \<times> ((FormState \<Rightarrow> FormState) \<Rightarrow> FormState \<Rightarrow> FormState)
   \<times> (ValidateSettings \<Rightarrow> FormState \<Rightarrow> FormState \<times> FormState promise)
   \<times> (string \<Rightarrow> jsval \<Rightarrow> SetValueSettings \<Rightarrow> FormState \<Rightarrow> FormState)
   \<times> (jsval obj \<Rightarrow> SetValueSettings \<Rightarrow> FormState \<Rightarrow> FormState)
   \<times> (FormState \<Rightarrow> FormState) \<times> (FormState \<Rightarrow> FormState) \<times> (FormState \<Rightarrow> FormState)"

definition formContextValue :: "FormFieldValidators \<Rightarrow> FormState \<Rightarrow> FormContextValue" where
  "formContextValue fieldValidators state =
     (state, fieldValidators, (\<lambda>update. update), validateAll fieldValidators state,
      setValue, setValues, makeFormPristine, makeFormSubmitted, reset)"

record UseFormApiResponse =
  formState :: FormState
  api_validate :: "ValidateSettings \<Rightarrow> FormState \<Rightarrow> FormState \<times> FormState promise"
  api_setValue :: "string \<Rightarrow> jsval \<Rightarrow> SetValueSettings \<Rightarrow> FormState \<Rightarrow> FormState"
  api_setValues :: "jsval obj \<Rightarrow> SetValueSettings \<Rightarrow> FormState \<Rightarrow> FormState"
  api_makePristine :: "FormState \<Rightarrow> FormState"
  api_reset :: "FormState \<Rightarrow> FormState"

text \<open>
  \<open>useFormApi\<close> takes the entries 0, 3, 4, 5, 6 and 7 of the context, as its
  destructuring pattern \<open>[state, , , validate, setValue, setValues, makePristine, reset]\<close>
  does, and fails outside a form.
\<close>

definition useFormApi :: "FormContextValue option \<Rightarrow> string + UseFormApiResponse" where
  "useFormApi ctx =
     (case ctx of
        None \<Rightarrow> Inl ''useFormApi was called outside a form''
      | Some (state, _, _, validate', setValue', setValues', makePristine', reset', _) \<Rightarrow>
          Inr \<lparr> formState = state, api_validate = validate', api_setValue = setValue',
                api_setValues = setValues', api_makePristine = makePristine',
                api_reset = reset' \<rparr>)"

section \<open>Submitting\<close>







section \<open>A form in operation\<close>

text \<open>
  A form context over time: the store, the registry of validators, the mounted fields
  (each with the state of the render its effects ran in), and the validations that have
  started and not yet written their result.
\<close>

record Form =
  store :: FormState
  fieldValidators :: FormFieldValidators
  mounted :: "(string \<times> FormState) list"
  validations :: "(ValidateSettings \<times> (string \<times> jsval) option list promise) list"
  fieldValidations :: "(string \<times> jsval promise) list"

definition initialForm :: Form where
  "initialForm =
     \<lparr> store = initialState, fieldValidators = [], mounted = [], validations = [],
       fieldValidations = [] \<rparr>"

datatype op =
    Mount string jsval "FormFieldValidator option" bool
  | Seed string jsval bool
  | Unmount nat
  | SetValue string jsval SetValueSettings
  | SetValues "jsval obj" SetValueSettings
  | MakePristine
  | MakeSubmitted
  | FieldMakePristine string
  | Reset
  | ValidateStart ValidateSettings
  | ValidateCommit nat
  | FieldValidateStart string "jsval obj"
  | FieldValidateCommit nat

definition remove_nth :: "nat \<Rightarrow> 'a list \<Rightarrow> 'a list" where
  "remove_nth n xs = take n xs @ drop (Suc n) xs"

text \<open>
  One operation. Mounting runs the three effects of \<open>useField\<close> against the state of
  the same render; unmounting runs the cleanups of the \<open>n\<close>-th mounted field; a
  validation starts (its validators are all called then) and commits in two separate
  operations, so that anything may happen in between; a validation that never settles
  never commits.
\<close>

fun step :: "op \<Rightarrow> Form \<Rightarrow> Form" where
  "step (Mount field initialValue validator forceInitialValue) F =
     F\<lparr> store := useField_seed field initialValue forceInitialValue (store F) (store F),
        fieldValidators := register_validator field validator (fieldValidators F),
        mounted := mounted F @ [(field, store F)] \<rparr>"
| "step (Seed field initialValue forceInitialValue) F =
     F\<lparr> store := useField_seed field initialValue forceInitialValue (store F) (store F) \<rparr>"
| "step (Unmount n) F =
     (if n < length (mounted F)
      then case mounted F ! n of
             (field, state) \<Rightarrow>
               F\<lparr> store := useField_cleanup field state (store F),
                  fieldValidators := deregister_validator field (fieldValidators F),
                  mounted := remove_nth n (mounted F) \<rparr>
      else F)"
| "step (SetValue field v settings) F = F\<lparr> store := setValue field v settings (store F) \<rparr>"
| "step (SetValues fields' settings) F = F\<lparr> store := setValues fields' settings (store F) \<rparr>"
| "step MakePristine F = F\<lparr> store := makeFormPristine (store F) \<rparr>"
| "step MakeSubmitted F = F\<lparr> store := makeFormSubmitted (store F) \<rparr>"
| "step (FieldMakePristine field) F = F\<lparr> store := useField_makePristine field (store F) \<rparr>"
| "step Reset F = F\<lparr> store := reset (store F) \<rparr>"
| "step (ValidateStart settings) F =
     F\<lparr> store := validate_begin (store F),
        validations :=
          validations F @ [(settings, validate_results (fieldValidators F) (store F))] \<rparr>"
| "step (ValidateCommit n) F =
     (if n < length (validations F)
      then case validations F ! n of
             (settings, Fulfilled results) \<Rightarrow>
               F\<lparr> store := validate_commit settings results (store F),
                  validations := remove_nth n (validations F) \<rparr>
           | _ \<Rightarrow> F
      else F)"
| "step (FieldValidateStart field immutableValues) F =
     F\<lparr> fieldValidations :=
          fieldValidations F @
            [(field, validateField (fieldValidators F) (values (store F)) field immutableValues)] \<rparr>"
| "step (FieldValidateCommit n) F =
     (if n < length (fieldValidations F)
      then case fieldValidations F ! n of
             (field, Pending) \<Rightarrow> F
           | (field, p) \<Rightarrow>
               F\<lparr> store := useField_validate_commit field p (store F),
                  fieldValidations := remove_nth n (fieldValidations F) \<rparr>
      else F)"


section \<open>Properties of a state\<close>








section \<open>What the specification says a validator's result becomes\<close>

text \<open>
  The following two definitions follow the words of the specification, not the code:
  an error value is wrapped into an error object unless it is one already, and a field's
  error is what its registered validator yields when called with the field's value and
  the snapshot: nothing without a validator or for a falsy result, the normalised error
  for a truthy result and for a thrown or rejected failure.
\<close>

definition normalize_error :: "jsval \<Rightarrow> jsval" where
  "normalize_error e = (if instanceofError e then e else new_Error e)"

definition spec_field_error :: "FormFieldValidators \<Rightarrow> jsval obj \<Rightarrow> string \<Rightarrow> jsval option" where
  "spec_field_error fv snapshot field =
     (case map_of fv field of
        None \<Rightarrow> None
      | Some None \<Rightarrow> None
      | Some (Some validator) \<Rightarrow>
          (case await (validator (get snapshot field) snapshot) of
             Fulfilled r \<Rightarrow> if truthy r then Some (normalize_error r) else None
           | Rejected e \<Rightarrow> Some (normalize_error e)
           | Pending \<Rightarrow> None))"

definition spec_result ::
  "FormFieldValidators \<Rightarrow> jsval obj \<Rightarrow> string \<Rightarrow> (string \<times> jsval) option" where
  "spec_result fv snapshot field = map_option (Pair field) (spec_field_error fv snapshot field)"

text \<open>The validator of a field, if it has one, settles on this snapshot.\<close>

definition settles :: "FormFieldValidators \<Rightarrow> jsval obj \<Rightarrow> string \<Rightarrow> bool" where
  "settles fv snapshot field =
     (case map_of fv field of
        Some (Some validator) \<Rightarrow> await (validator (get snapshot field) snapshot) \<noteq> Pending
      | _ \<Rightarrow> True)"

section \<open>Example forms\<close>





text \<open>Validators that fail with the string \<open>"bad"\<close>, by rejecting and by returning it.\<close>

definition rejectsBad :: FormFieldValidator where
  "rejectsBad v vs = ReturnsPromise (Rejected (JStr ''bad''))"

definition returnsBad :: FormFieldValidator where
  "returnsBad v vs = Returns (JStr ''bad'')"

text \<open>A validator that reports the \<open>x\<close> of the values it is given.\<close>

definition reportsX :: FormFieldValidator where
  "reportsX v vs = Returns (get vs ''x'')"

text \<open>A state with the one field \<open>x\<close>, holding \<open>"a"\<close>, never touched by the user.\<close>

definition onlyX :: FormState where
  "onlyX = setValue ''x'' (JStr ''a'') \<lparr> keepPristine = Some True \<rparr> initialState"

text \<open>The same field after the user typed \<open>"a"\<close> into it.\<close>

definition typedX :: FormState where
  "typedX = setValue ''x'' (JStr ''a'') \<lparr> keepPristine = None \<rparr> initialState"







section \<open>Facts about objects\<close>







section \<open>Dirty and pristine\<close>
















section \<open>The form API\<close>

lemma useFormApi_context:
  "useFormApi (Some (formContextValue fv s)) =
     Inr \<lparr> formState = s, api_validate = validateAll fv s, api_setValue = setValue,
           api_setValues = setValues, api_makePristine = makeFormPristine,
           api_reset = makeFormSubmitted \<rparr>"
  by (simp add: useFormApi_def formContextValue_def)

lemma reset_initialState: "reset s = initialState"
  by (simp add: reset_def initialState_def)

text \<open>
  Claim C1, at a failing input. The \<open>reset\<close> that \<open>useFormApi\<close> returns is entry 7
  of the context, which is \<open>makeFormSubmitted\<close>; \<open>reset\<close> is entry 8. Called on a
  form whose field \<open>x\<close> the user has typed into, it leaves the value, the dirty mark and
  the flags as they were and sets \<open>submitted\<close>.
\<close>

theorem useFormApi_reset_keeps_state:
  "(case useFormApi (Some (formContextValue [] typedX)) of
      Inl e \<Rightarrow> None
    | Inr api \<Rightarrow> Some (api_reset api typedX))
   = Some \<lparr> values = [(''x'', JStr ''a'')], valid = True, invalid = False, loading = False,
            submitted = True, dirty = True, pristine = False,
            dirtyFields = [(''x'', True)], errors = [] \<rparr>"
  by (simp add: useFormApi_def formContextValue_def makeFormSubmitted_def typedX_def
      setValue_def initialState_def dflt_def Let_def)

section \<open>The submitted flag\<close>

lemma submitted_step:
  "submitted (store F) \<Longrightarrow> \<not> submitted (store (step op' F)) \<Longrightarrow>
     (\<exists>field v settings. op' = SetValue field v settings \<and> \<not> dflt False (keepPristine settings)) \<or>
     (\<exists>fields' settings. op' = SetValues fields' settings \<and> \<not> dflt False (keepPristine settings))"
  by (cases op')
     (auto simp: setValue_def setValues_def useField_seed_def useField_cleanup_def
        makeFormPristine_def makeFormSubmitted_def useField_makePristine_def reset_def
        validate_begin_def validate_commit_def useField_validate_commit_def Let_def dflt_def
        split: prod.splits promise.splits if_splits)

text \<open>
  Claim C10. A fresh state and the state after \<open>reset\<close> have \<open>submitted = true\<close>.
  An operation takes \<open>submitted\<close> from true to false only if it is \<open>setValue\<close> or
  \<open>setValues\<close> without \<open>keepPristine\<close>, and \<open>setValue\<close> without \<open>keepPristine\<close>
  always leaves it false.
\<close>

theorem submitted_initially_and_cleared_only_by_set:
  "submitted initialState \<and> submitted (reset s) \<and>
   (submitted (store F) \<and> \<not> submitted (store (step op' F)) \<longrightarrow>
     (\<exists>field v settings. op' = SetValue field v settings \<and> \<not> dflt False (keepPristine settings)) \<or>
     (\<exists>fields' settings. op' = SetValues fields' settings \<and> \<not> dflt False (keepPristine settings))) \<and>
   (\<not> dflt False (keepPristine settings') \<longrightarrow> \<not> submitted (setValue field' v' settings' s))"
  using submitted_step [of F op']
  by (auto simp: initialState_def reset_def setValue_def Let_def)

theorem submitted_initially_and_cleared_only_by_set_witness:
  "submitted (store initialForm) \<and>
   \<not> submitted (store (step (SetValue ''x'' (JStr ''a'') \<lparr> keepPristine = None \<rparr>) initialForm)) \<and>
   \<not> dflt False (keepPristine \<lparr> keepPristine = None \<rparr>) \<and>
   \<not> submitted (setValue ''x'' (JStr ''a'') \<lparr> keepPristine = None \<rparr> initialState)"
  using submitted_initially_and_cleared_only_by_set
    [of initialState initialForm "SetValue ''x'' (JStr ''a'') \<lparr> keepPristine = None \<rparr>"
      "\<lparr> keepPristine = None \<rparr>" "''x''" "JStr ''a''"]
  by (simp add: initialForm_def initialState_def setValue_def dflt_def Let_def)

section \<open>Mounting a field\<close>






section \<open>Unmounting a field\<close>






section \<open>Validating one field\<close>

lemma validateField_ignores_snapshot:
  "validateField fv state_values field vals = validateField fv state_values field vals'"
  by (simp add: validateField_def)

lemma validateField_no_validator:
  "map_of fv field = None \<or> map_of fv field = Some None \<Longrightarrow>
     validateField fv state_values field vals = Fulfilled JNull"
  by (auto simp: validateField_def)

text \<open>
  Claim C6, at a failing input. The validator of \<open>x\<close> reports the \<open>x\<close> of the values
  it is given. The state holds the empty string for \<open>x\<close> and the caller passes a snapshot
  in which \<open>x\<close> is \<open>"bad"\<close>: the validator is called with the state's values and finds
  no error. With the two exchanged it finds the error \<open>"bad"\<close> that is in the state and
  not in the snapshot.
\<close>

theorem validateField_reads_state_not_snapshot:
  "validateField [(''x'', Some reportsX)] [(''x'', JStr [])] ''x'' [(''x'', JStr ''bad'')] =
     Fulfilled JNull \<and>
   validateField [(''x'', Some reportsX)] [(''x'', JStr ''bad'')] ''x'' [(''x'', JStr [])] =
     Fulfilled (JError ''bad'')"
  by (simp add: validateField_def reportsX_def get_def new_Error_def)

text \<open>
  Claim C7, at a failing input. The validator of \<open>x\<close> rejects with the string
  \<open>"bad"\<close>. The field's own \<open>validate\<close> stores the string itself under \<open>errors.x\<close>,
  where a validator returning \<open>"bad"\<close> gives an \<open>Error\<close> with that message, and where
  whole-form validation gives the \<open>Error\<close> for the rejection too.
\<close>

theorem field_validate_stores_raw_rejection:
  "errors (useField_validate [(''x'', Some rejectsBad)] (values onlyX) ''x'' (values onlyX) onlyX)
     = [(''x'', JStr ''bad'')] \<and>
   errors (useField_validate [(''x'', Some returnsBad)] (values onlyX) ''x'' (values onlyX) onlyX)
     = [(''x'', JError ''bad'')] \<and>
   errors (fst (validate [(''x'', Some rejectsBad)] onlyX
       \<lparr> makeSubmitted = None, makePristine = None \<rparr> onlyX))
     = [(''x'', JError ''bad'')]"
  by (simp add: useField_validate_def useField_validate_commit_def validateField_def
      validate_def validate_results_def fieldValidation_def validate_commit_def
      validate_begin_def collect_errors_def rejectsBad_def returnsBad_def onlyX_def
      setValue_def initialState_def dflt_def Let_def get_def new_Error_def keys_def)

section \<open>Validating the whole form\<close>

lemma instanceofError_truthy: "instanceofError e \<Longrightarrow> truthy e"
  by (cases e) simp_all

lemma normalize_is_Error: "\<exists>m. normalize_error e = JError m"
  by (cases e) (simp_all add: normalize_error_def new_Error_def)

lemma fieldValidation_spec:
  "fieldValidation fv vals imm k = Fulfilled r \<Longrightarrow> r = spec_result fv vals k"
  by (auto simp: fieldValidation_def validateField_def spec_result_def spec_field_error_def
      normalize_error_def new_Error_def instanceofError_truthy
      split: option.splits promise.splits if_splits)

lemma fieldValidation_not_Rejected: "fieldValidation fv vals imm k \<noteq> Rejected e"
  by (auto simp: fieldValidation_def split: promise.splits)

lemma fieldValidation_settles:
  "settles fv vals k \<Longrightarrow> \<exists>r. fieldValidation fv vals imm k = Fulfilled r"
  by (auto simp: fieldValidation_def validateField_def settles_def
      split: option.splits promise.splits)

lemma promise_all_Fulfilled:
  "promise_all (map f ks) = Fulfilled rs \<Longrightarrow> list_all2 (\<lambda>k r. f k = Fulfilled r) ks rs"
  by (induction ks arbitrary: rs) (auto split: promise.splits)

lemma promise_all_not_Rejected:
  "(\<And>k e. f k \<noteq> Rejected e) \<Longrightarrow> promise_all (map f ks) \<noteq> Rejected e"
  by (induction ks) (auto split: promise.splits)

lemma promise_all_completes:
  "\<forall>k\<in>set ks. \<exists>r. f k = Fulfilled r \<Longrightarrow> \<exists>rs. promise_all (map f ks) = Fulfilled rs"
  by (induction ks) (auto split: promise.splits)

text \<open>
  Whole-form validation never fails, and it completes when every validator of a key of
  \<open>values\<close> settles.
\<close>

lemma validate_results_not_Rejected: "validate_results fv state \<noteq> Rejected e"
  by (simp add: validate_results_def promise_all_not_Rejected fieldValidation_not_Rejected)

lemma validate_results_completes:
  "\<forall>k\<in>set (keys (values state)). settles fv (values state) k \<Longrightarrow>
     \<exists>results. validate_results fv state = Fulfilled results"
  unfolding validate_results_def Let_def
  by (rule promise_all_completes) (simp add: fieldValidation_settles)

lemma validate_results_spec:
  assumes "validate_results fv state = Fulfilled results"
  shows "results = map (spec_result fv (values state)) (keys (values state))"
proof -
  have "list_all2 (\<lambda>k r. fieldValidation fv (values state) (values state) k = Fulfilled r)
          (keys (values state)) results"
    using assms by (simp add: validate_results_def promise_all_Fulfilled)
  then have "list_all2 (\<lambda>k r. r = spec_result fv (values state) k) (keys (values state)) results"
    by (rule list_all2_mono) (simp add: fieldValidation_spec)
  then show ?thesis
    by (induction rule: list_all2_induct) simp_all
qed

lemma collect_errors_snoc:
  "collect_errors (rs @ [r]) =
     (case r of None \<Rightarrow> collect_errors rs
      | Some (key, error) \<Rightarrow> (True, AList.update key error (snd (collect_errors rs))))"
  by (simp add: collect_errors_def split: option.splits prod.splits)

lemma collect_errors_Nil: "collect_errors [] = (False, [])"
  by (simp add: collect_errors_def)


lemma collect_errors_lookup:
  "map_of (snd (collect_errors (map (spec_result fv vals) ks))) k =
     (if k \<in> set ks then spec_field_error fv vals k else None)"
proof (induction ks rule: rev_induct)
  case Nil
  show ?case by (simp add: collect_errors_Nil)
next
  case (snoc x xs)
  show ?case
  proof (cases "spec_field_error fv vals x")
    case None
    with snoc show ?thesis
      by (auto simp: collect_errors_snoc spec_result_def)
  next
    case (Some e)
    with snoc show ?thesis
      by (auto simp: collect_errors_snoc spec_result_def update_conv')
  qed
qed









lemma errors_lookup:
  assumes "validate_results fv state = Fulfilled results"
  shows "map_of (snd (collect_errors results)) k =
           (if has k (values state) then spec_field_error fv (values state) k else None)"
  using validate_results_spec [OF assms]
    collect_errors_lookup [of fv "values state" "keys (values state)" k]
  by (simp add: has_def)


text \<open>
  Every error that whole-form validation collects is an \<open>Error\<close> object.
\<close>

lemma validate_errors_are_Errors:
  assumes "validate_results fv state = Fulfilled results"
    and "map_of (snd (collect_errors results)) k = Some e"
  shows "\<exists>m. e = JError m"
proof -
  from errors_lookup [OF assms(1), of k] assms(2)
  have "spec_field_error fv (values state) k = Some e"
    by (simp split: if_splits)
  then show ?thesis
    using normalize_is_Error
    by (auto simp: spec_field_error_def split: option.splits promise.splits if_splits)
qed





section \<open>Errors and the fields they belong to\<close>





















section \<open>Submitting\<close>









end
